theory Spec2Isabelle
  imports Main "HOL-Library.Word"
begin

unbundle bit_operations_syntax

section \<open>Data model\<close>

text \<open>
  A Python \<open>str\<close> is a sequence of Unicode code points; a character is modelled by its
  code point. A \<open>bytearray\<close> is a list of bytes. Python integers are unbounded, so
  offsets, pointers and counters are \<open>int\<close>.
\<close>

type_synonym byte = "8 word"
type_synonym pychar = nat
type_synonym pystr = "pychar list"

datatype py_error = IndexError | ValueError | FileNotFoundError | OSError

subsection \<open>Library operations used by the program\<close>

text \<open>
  \<open>s.encode('utf-8', errors='ignore')\<close>: every code point becomes one to four bytes;
  a lone surrogate (U+D800..U+DFFF) cannot be encoded and is dropped by the
  \<open>ignore\<close> handler. Python strings hold no code point above U+10FFFF.
\<close>

definition utf8_char :: "pychar \<Rightarrow> byte list" where
  "utf8_char cp =
     (if cp < 0x80 then [of_nat cp]
      else if cp < 0x800 then
        [of_nat (0xC0 + cp div 0x40), of_nat (0x80 + cp mod 0x40)]
      else if 0xD800 \<le> cp \<and> cp \<le> 0xDFFF then []
      else if cp < 0x10000 then
        [of_nat (0xE0 + cp div 0x1000), of_nat (0x80 + (cp div 0x40) mod 0x40),
         of_nat (0x80 + cp mod 0x40)]
      else if cp < 0x110000 then
        [of_nat (0xF0 + cp div 0x40000), of_nat (0x80 + (cp div 0x1000) mod 0x40),
         of_nat (0x80 + (cp div 0x40) mod 0x40), of_nat (0x80 + cp mod 0x40)]
      else [])"

definition str_encode :: "pystr \<Rightarrow> byte list" where
  "str_encode s = concat (map utf8_char s)"

text \<open>The slices \<open>text[:-1]\<close> and \<open>text[-1:]\<close>; neither raises on the empty string.\<close>

definition slice_init :: "pystr \<Rightarrow> pystr" where
  "slice_init text = (if text = [] then [] else butlast text)"

definition slice_last :: "pystr \<Rightarrow> pystr" where
  "slice_last text = (if text = [] then [] else [last text])"

text \<open>\<open>d.get(k, default)\<close> on a dictionary.\<close>

definition dict_get :: "('k \<rightharpoonup> 'v) \<Rightarrow> 'k \<Rightarrow> 'v \<Rightarrow> 'v" where
  "dict_get d k dflt = (case d k of None \<Rightarrow> dflt | Some v \<Rightarrow> v)"

text \<open>\<open>xs.pop()\<close> raises \<open>IndexError\<close> on an empty list.\<close>

definition list_pop :: "'a list \<Rightarrow> py_error + 'a list" where
  "list_pop xs = (if xs = [] then Inl IndexError else Inr (butlast xs))"

text \<open>\<open>bytearray.append(x)\<close> raises \<open>ValueError\<close> unless \<open>x\<close> is in \<open>range(256)\<close>.\<close>

definition bytearray_append :: "byte list \<Rightarrow> int \<Rightarrow> py_error + byte list" where
  "bytearray_append data x =
     (if 0 \<le> x \<and> x < 256 then Inr (data @ [word_of_int x]) else Inl ValueError)"

section \<open>characterReplacer\<close>

definition replacement_table :: "(pychar \<times> pystr) list" where
  "replacement_table =
     [(0x3F, [0x23]),   \<comment> \<open>\<open>?\<close> to \<open>#\<close>\<close>
      (0xBF, [0x24]),   \<comment> \<open>inverted question mark to \<open>$\<close>\<close>
      (0xE1, [0x25]),   \<comment> \<open>a acute to \<open>%\<close>\<close>
      (0xE9, [0x4B]),   \<comment> \<open>e acute to \<open>K\<close>\<close>
      (0xED, [0x57]),   \<comment> \<open>i acute to \<open>W\<close>\<close>
      (0xF3, [0x58]),   \<comment> \<open>o acute to \<open>X\<close>\<close>
      (0xFA, [0x77]),   \<comment> \<open>u acute to \<open>w\<close>\<close>
      (0xF1, [0x29]),   \<comment> \<open>n tilde to \<open>)\<close>\<close>
      (0xC1, [0x27]),   \<comment> \<open>A acute to the apostrophe\<close>
      (0xC9, [0x28])]   \<comment> \<open>E acute to \<open>(\<close>\<close>"

definition replacement_dict :: "pychar \<rightharpoonup> pystr" where
  "replacement_dict = map_of replacement_table"

text \<open>\<open>''.join(replacement_dict.get(char, char) for char in text)\<close>\<close>

definition replace_text :: "pystr \<Rightarrow> pystr" where
  "replace_text text = concat (map (\<lambda>char. dict_get replacement_dict char [char]) text)"

fun replacer_loop :: "pystr list \<Rightarrow> pystr list \<Rightarrow> pystr list" where
  "replacer_loop [] replaced_texts = replaced_texts"
| "replacer_loop (text # rest) replaced_texts =
     replacer_loop rest (replaced_texts @ [replace_text text])"

definition characterReplacer :: "pystr list \<Rightarrow> pystr list" where
  "characterReplacer textList = replacer_loop textList []"

section \<open>encodeTextsAndPointers\<close>

text \<open>The loop over the texts; its state is \<open>(encodedData, totalBytes, pointers)\<close>.\<close>

fun encode_loop ::
  "pystr list \<Rightarrow> int \<Rightarrow> byte list \<times> int \<times> int list \<Rightarrow> byte list \<times> int \<times> int list" where
  "encode_loop [] textStartOffset st = st"
| "encode_loop (text # rest) textStartOffset (encodedData, totalBytes, pointers) =
     (let textContent = slice_init text;
          breaker = slice_last text;
          encodedData1 = encodedData @ str_encode textContent;
          encodedData2 = encodedData1 @ str_encode breaker;
          totalBytes1 = totalBytes
            + (int (length (str_encode textContent)) + int (length (str_encode breaker)));
          pointers1 = pointers @ [textStartOffset + totalBytes1]
      in encode_loop rest textStartOffset (encodedData2, totalBytes1, pointers1))"

text \<open>\<open>((ptr >> 8) & 0xFF) | ((ptr & 0xFF) << 8)\<close>\<close>

definition reverse_bytes :: "int \<Rightarrow> int" where
  "reverse_bytes ptr = (drop_bit 8 ptr AND 0xFF) OR push_bit 8 (ptr AND 0xFF)"

text \<open>The loop that serialises the pointers, most significant byte first.\<close>

fun pointers_loop :: "int list \<Rightarrow> byte list \<Rightarrow> py_error + byte list" where
  "pointers_loop [] pointersData = Inr pointersData"
| "pointers_loop (ptr # rest) pointersData =
     (case bytearray_append pointersData (drop_bit 8 ptr AND 0xFF) of
        Inl e \<Rightarrow> Inl e
      | Inr pointersData1 \<Rightarrow>
          (case bytearray_append pointersData1 (ptr AND 0xFF) of
             Inl e \<Rightarrow> Inl e
           | Inr pointersData2 \<Rightarrow> pointers_loop rest pointersData2))"

definition encodeTextsAndPointers ::
  "pystr list \<Rightarrow> int \<Rightarrow> int \<Rightarrow> py_error + (byte list \<times> int \<times> byte list)" where
  "encodeTextsAndPointers texts textStartOffset pointersDistance =
     (case encode_loop texts textStartOffset ([], 0, [textStartOffset]) of
        (encodedData, totalBytes, pointers) \<Rightarrow>
          (case list_pop pointers of
             Inl e \<Rightarrow> Inl e
           | Inr pointers1 \<Rightarrow>
               (let pointers2 = map (\<lambda>ptr. ptr - pointersDistance) pointers1;
                    pointers3 = map reverse_bytes pointers2
                in case pointers_loop pointers3 [] of
                     Inl e \<Rightarrow> Inl e
                   | Inr pointersData \<Rightarrow> Inr (encodedData, totalBytes, pointersData))))"

section \<open>writeROM and the main program\<close>

text \<open>
  The ROM file is \<open>None\<close> when it cannot be opened, otherwise its bytes. Opening with
  \<open>r+b\<close> keeps the content; a write past the end fills the gap with zero bytes, and a
  write of no bytes changes nothing.
\<close>

type_synonym rom_file = "byte list option"

definition write_at :: "byte list \<Rightarrow> nat \<Rightarrow> byte list \<Rightarrow> byte list" where
  "write_at content pos data =
     (if data = [] then content
      else take pos content @ replicate (pos - length content) 0 @ data
           @ drop (pos + length data) content)"

definition writeROM :: "rom_file \<Rightarrow> int \<Rightarrow> byte list \<Rightarrow> py_error + rom_file" where
  "writeROM romFile startOffset data =
     (case romFile of
        None \<Rightarrow> Inl FileNotFoundError
      | Some content \<Rightarrow>
          if startOffset < 0 then Inl OSError
          else Inr (Some (write_at content (nat startOffset) data)))"

definition TEXTSTARTOFFSET :: int where "TEXTSTARTOFFSET = 0x1007B"
definition POINTERSSTARTOFFSET :: int where "POINTERSSTARTOFFSET = 0x144F4"
definition POINTERSDISTANCE :: int where "POINTERSDISTANCE = 0x8010"

text \<open>
  What the program prints, with the numbers it formats into the lines, and how it ends:
  \<open>sys.exit(n)\<close>, an uncaught exception, or the end of the script.
\<close>

datatype output_line =
    ErrorExceedsLimit
  | RemoveBytes int
  | TextWritten int
  | PointersWritten int int
  | FreeSpace int
  | DataWritten

datatype exit_kind = SysExit int | Uncaught py_error | Finished

text \<open>
  The script body from the call of \<open>characterReplacer\<close> on; \<open>lengthText\<close> and \<open>text\<close> are
  the two values \<open>readTextFile\<close> returned. The result is how the run ended, the lines
  printed and the ROM file afterwards.
\<close>

definition main :: "int \<Rightarrow> pystr list \<Rightarrow> rom_file \<Rightarrow> exit_kind \<times> output_line list \<times> rom_file" where
  "main lengthText text romFile =
     (let replacedText = characterReplacer text
      in case encodeTextsAndPointers replacedText TEXTSTARTOFFSET POINTERSDISTANCE of
           Inl e \<Rightarrow> (Uncaught e, [], romFile)
         | Inr (encodedData, totalBytes, pointersList) \<Rightarrow>
             if int (length encodedData) > lengthText then
               (let excess = int (length encodedData) - lengthText
                in (SysExit 1, [ErrorExceedsLimit, RemoveBytes excess], romFile))
             else
               (let freeBytes = lengthText - int (length encodedData)
                in case writeROM romFile TEXTSTARTOFFSET encodedData of
                     Inl e \<Rightarrow> (Uncaught e, [], romFile)
                   | Inr romFile1 \<Rightarrow>
                       (case writeROM romFile1 POINTERSSTARTOFFSET pointersList of
                          Inl e \<Rightarrow> (Uncaught e, [], romFile1)
                        | Inr romFile2 \<Rightarrow>
                            (Finished,
                             [TextWritten TEXTSTARTOFFSET,
                              PointersWritten POINTERSSTARTOFFSET (int (length pointersList) div 2),
                              FreeSpace freeBytes,
                              DataWritten],
                             romFile2))))"

section \<open>Quantities the properties are stated in\<close>

text \<open>The bytes one pass of the loop appends for a record: its content, then its breaker.\<close>

definition encode_record :: "pystr \<Rightarrow> byte list" where
  "encode_record text = str_encode (slice_init text) @ str_encode (slice_last text)"

text \<open>
  The values the loop appends to \<open>pointers\<close> when it starts with the running address
  \<open>p\<close> (the address after each record), and the addresses at which the records start.
\<close>

fun record_ends :: "int \<Rightarrow> pystr list \<Rightarrow> int list" where
  "record_ends p [] = []"
| "record_ends p (text # rest) =
     (p + int (length (encode_record text)))
       # record_ends (p + int (length (encode_record text))) rest"

fun record_starts :: "int \<Rightarrow> pystr list \<Rightarrow> int list" where
  "record_starts p [] = []"
| "record_starts p (text # rest) =
     p # record_starts (p + int (length (encode_record text))) rest"

text \<open>The number of encoded bytes of the records before record \<open>i\<close>.\<close>

definition start_offset :: "pystr list \<Rightarrow> nat \<Rightarrow> int" where
  "start_offset texts i = (\<Sum>text\<leftarrow>take i texts. int (length (encode_record text)))"

text \<open>The two bytes one pass of the serialising loop appends for a list element.\<close>

definition pointer_pair :: "int \<Rightarrow> byte list" where
  "pointer_pair ptr = [word_of_int (drop_bit 8 ptr AND 0xFF), word_of_int (ptr AND 0xFF)]"

text \<open>
  The emission of one corrected pointer value: the byte reversal and the serialising loop
  of \<open>encodeTextsAndPointers\<close>, run on that single value.
\<close>

definition emit_pointer :: "int \<Rightarrow> py_error + byte list" where
  "emit_pointer corrected = pointers_loop (map reverse_bytes [corrected]) []"

text \<open>
  The specification's reading of a stored pointer: the two stored bytes are a big-endian
  value; undo the byte swap, then add the distance constant.
\<close>

definition decode_pointer :: "byte \<Rightarrow> byte \<Rightarrow> int \<Rightarrow> int" where
  "decode_pointer first second distance =
     reverse_bytes (256 * uint first + uint second) + distance"


section \<open>The loops in closed form\<close>

lemma replacer_loop_eq: "replacer_loop textList acc = acc @ map replace_text textList"
  by (induction textList arbitrary: acc) simp_all

lemma characterReplacer_eq: "characterReplacer textList = map replace_text textList"
  by (simp add: characterReplacer_def replacer_loop_eq)

lemma str_encode_append: "str_encode (s @ t) = str_encode s @ str_encode t"
  by (simp add: str_encode_def)

lemma slice_split: "slice_init t @ slice_last t = t"
  by (simp add: slice_init_def slice_last_def)

lemma encode_record_eq: "encode_record t = str_encode t"
  unfolding encode_record_def
  by (simp only: str_encode_append [symmetric] slice_split)

lemma encode_loop_eq:
  "encode_loop texts b (enc, tot, ptrs) =
     (enc @ concat (map encode_record texts),
      tot + (\<Sum>t\<leftarrow>texts. int (length (encode_record t))),
      ptrs @ record_ends (b + tot) texts)"
proof (induction texts arbitrary: enc tot ptrs)
  case Nil
  show ?case by simp
next
  case (Cons t rest)
  show ?case
    by (simp add: Cons.IH Let_def encode_record_def add.assoc)
qed

lemma butlast_record_ends: "butlast (p # record_ends p texts) = record_starts p texts"
  by (induction texts arbitrary: p) simp_all

lemma length_record_starts: "length (record_starts p texts) = length texts"
  by (induction texts arbitrary: p) simp_all

lemma nth_record_starts:
  "i < length texts \<Longrightarrow> record_starts p texts ! i = p + start_offset texts i"
proof (induction texts arbitrary: p i)
  case Nil
  then show ?case by simp
next
  case (Cons t rest)
  show ?case
  proof (cases i)
    case 0
    then show ?thesis by (simp add: start_offset_def)
  next
    case (Suc j)
    with Cons.prems have "j < length rest" by simp
    from Cons.IH [OF this] Suc show ?thesis by (simp add: start_offset_def)
  qed
qed

lemma mask_255: "(0xFF::int) = mask 8"
  by (simp add: mask_eq_exp_minus_1)

lemma and_255_mod: "(x::int) AND 0xFF = x mod 256"
  unfolding mask_255 by (simp add: take_bit_eq_mask [symmetric] take_bit_eq_mod)

lemma byte_mask_bounds: "0 \<le> (x::int) AND 0xFF" "(x::int) AND 0xFF < 256"
  by (simp_all add: and_255_mod)

lemma pointers_loop_eq:
  "pointers_loop ptrs acc = Inr (acc @ concat (map pointer_pair ptrs))"
  by (induction ptrs arbitrary: acc)
     (simp_all add: bytearray_append_def byte_mask_bounds pointer_pair_def)

lemma encodeTextsAndPointers_eq:
  "encodeTextsAndPointers texts b d =
     Inr (concat (map encode_record texts),
          (\<Sum>t\<leftarrow>texts. int (length (encode_record t))),
          concat (map (\<lambda>p. pointer_pair (reverse_bytes (p - d))) (record_starts b texts)))"
  by (simp add: encodeTextsAndPointers_def encode_loop_eq list_pop_def pointers_loop_eq
      butlast_record_ends comp_def del: butlast.simps)

section \<open>The byte order of a pointer\<close>

lemma reverse_bytes_arith: "reverse_bytes c = (c div 256) mod 256 + 256 * (c mod 256)"
proof -
  have "reverse_bytes c = take_bit 8 (drop_bit 8 c) OR push_bit 8 (take_bit 8 c)"
    by (simp add: reverse_bytes_def mask_255 take_bit_eq_mask)
  also have "\<dots> = take_bit 8 (drop_bit 8 c) + push_bit 8 (take_bit 8 c)"
    by (rule disjunctive_add [symmetric]) (auto simp add: bit_simps)
  finally show ?thesis
    by (simp add: take_bit_eq_mod drop_bit_eq_div push_bit_eq_mult mult.commute)
qed

lemma reverse_bytes_high: "drop_bit 8 (reverse_bytes c) AND 0xFF = c mod 256"
proof -
  have "(c div 256 mod 256 + 256 * (c mod 256)) div 256 = c mod 256"
    by simp
  then show ?thesis
    by (simp add: and_255_mod reverse_bytes_arith drop_bit_eq_div)
qed

lemma reverse_bytes_low: "reverse_bytes c AND 0xFF = (c div 256) mod 256"
  by (simp add: and_255_mod reverse_bytes_arith)

lemma pointer_pair_reverse:
  "pointer_pair (reverse_bytes c) = [word_of_int (c mod 256), word_of_int ((c div 256) mod 256)]"
  by (simp only: pointer_pair_def reverse_bytes_high reverse_bytes_low)

lemma uint_byte_of_mod: "uint (word_of_int (x mod 256) :: byte) = x mod 256"
  by (simp add: uint_word_of_int take_bit_eq_mod)

lemma low16_split: "(c::int) mod 256 + 256 * ((c div 256) mod 256) = c mod 65536"
proof -
  have "c mod (256 * 256) = 256 * (c div 256 mod 256) + c mod 256"
    by (rule zmod_zmult2_eq) simp
  then show ?thesis by simp
qed

section \<open>Reading the pointer table\<close>

lemma length_pointer_pairs:
  "length (concat (map (\<lambda>p. pointer_pair (f p)) ps)) = 2 * length ps"
  by (induction ps) (simp_all add: pointer_pair_def)

lemma nth_pairs:
  "i < length xs \<Longrightarrow>
     concat (map (\<lambda>x. [f x, g x]) xs) ! (2 * i) = f (xs ! i) \<and>
     concat (map (\<lambda>x. [f x, g x]) xs) ! (2 * i + 1) = g (xs ! i)"
proof (induction xs arbitrary: i)
  case Nil
  then show ?case by simp
next
  case (Cons x xs)
  show ?case
  proof (cases i)
    case 0
    then show ?thesis by simp
  next
    case (Suc j)
    with Cons.prems have "j < length xs" by simp
    from Cons.IH [OF this] Suc show ?thesis by simp
  qed
qed

lemma pointer_bytes_nth:
  assumes "i < length texts"
  shows "concat (map (\<lambda>p. pointer_pair (reverse_bytes (p - d))) (record_starts b texts)) ! (2 * i)
           = word_of_int ((b + start_offset texts i - d) mod 256)"
    and "concat (map (\<lambda>p. pointer_pair (reverse_bytes (p - d))) (record_starts b texts)) ! (2 * i + 1)
           = word_of_int (((b + start_offset texts i - d) div 256) mod 256)"
proof -
  let ?f = "\<lambda>p. word_of_int ((p - d) mod 256) :: byte"
  let ?g = "\<lambda>p. word_of_int (((p - d) div 256) mod 256) :: byte"
  have i: "i < length (record_starts b texts)"
    using assms by (simp add: length_record_starts)
  have s: "record_starts b texts ! i - d = b + start_offset texts i - d"
    using assms by (simp add: nth_record_starts)
  from nth_pairs [OF i, of ?f ?g] s
  show "concat (map (\<lambda>p. pointer_pair (reverse_bytes (p - d))) (record_starts b texts)) ! (2 * i)
           = word_of_int ((b + start_offset texts i - d) mod 256)"
    and "concat (map (\<lambda>p. pointer_pair (reverse_bytes (p - d))) (record_starts b texts)) ! (2 * i + 1)
           = word_of_int (((b + start_offset texts i - d) div 256) mod 256)"
    by (simp_all add: pointer_pair_reverse)
qed

lemma uint_byte_of_div: "uint (word_of_int ((x div 256) mod 256) :: byte) = (x div 256) mod 256"
  by (simp add: uint_word_of_int take_bit_eq_mod)

lemma decode_pointer_low16:
  "decode_pointer (word_of_int (c mod 256)) (word_of_int ((c div 256) mod 256)) d
     = c mod 65536 + d"
proof -
  have "reverse_bytes (256 * (c mod 256) + (c div 256) mod 256)
          = c mod 256 + 256 * ((c div 256) mod 256)"
    by (simp add: reverse_bytes_arith)
  then show ?thesis
    by (simp add: decode_pointer_def uint_byte_of_mod uint_byte_of_div low16_split)
qed

lemma str_encode_replicate_A: "str_encode (replicate n 0x41) = replicate n 0x41"
  by (induction n) (simp_all add: str_encode_def utf8_char_def)

lemma emit_pointer_eq:
  "emit_pointer c = Inr [word_of_int (c mod 256), word_of_int ((c div 256) mod 256)]"
  by (simp add: emit_pointer_def pointers_loop_eq pointer_pair_reverse)

section \<open>The runs of the main program\<close>

lemma main_exceeds:
  assumes "encodeTextsAndPointers (characterReplacer texts) TEXTSTARTOFFSET POINTERSDISTANCE
             = Inr (encodedData, totalBytes, pointersList)"
    and "lengthText < int (length encodedData)"
  shows "main lengthText texts romFile
           = (SysExit 1, [ErrorExceedsLimit, RemoveBytes (int (length encodedData) - lengthText)],
              romFile)"
  using assms by (simp add: main_def)

lemma main_fits:
  assumes "encodeTextsAndPointers (characterReplacer texts) TEXTSTARTOFFSET POINTERSDISTANCE
             = Inr (encodedData, totalBytes, pointersList)"
    and "int (length encodedData) \<le> lengthText"
  shows "main lengthText texts (Some content)
           = (Finished,
              [TextWritten TEXTSTARTOFFSET,
               PointersWritten POINTERSSTARTOFFSET (int (length pointersList) div 2),
               FreeSpace (lengthText - int (length encodedData)),
               DataWritten],
              Some (write_at (write_at content (nat TEXTSTARTOFFSET) encodedData)
                      (nat POINTERSSTARTOFFSET) pointersList))"
  using assms
  by (simp add: main_def writeROM_def TEXTSTARTOFFSET_def POINTERSSTARTOFFSET_def)

lemma main_no_rom:
  assumes "encodeTextsAndPointers (characterReplacer texts) TEXTSTARTOFFSET POINTERSDISTANCE
             = Inr (encodedData, totalBytes, pointersList)"
    and "int (length encodedData) \<le> lengthText"
  shows "main lengthText texts None = (Uncaught FileNotFoundError, [], None)"
  using assms by (simp add: main_def writeROM_def)

lemma encode_hi_bye:
  "encodeTextsAndPointers [[0x48, 0x69, 0x21], [0x42, 0x79, 0x65, 0x2E]] b d
     = Inr ([0x48, 0x69, 0x21, 0x42, 0x79, 0x65, 0x2E], 7,
            concat (map (\<lambda>p. pointer_pair (reverse_bytes (p - d))) [b, b + 3]))"
  by (simp add: encodeTextsAndPointers_eq encode_record_eq str_encode_def utf8_char_def)

lemma replace_hi_bye:
  "characterReplacer [[0x48, 0x69, 0x21], [0x42, 0x79, 0x65, 0x2E]]
     = [[0x48, 0x69, 0x21], [0x42, 0x79, 0x65, 0x2E]]"
  by (simp add: characterReplacer_eq replace_text_def dict_get_def replacement_dict_def
      replacement_table_def)

section \<open>Substitution and empty records\<close>

lemma encode_record_Nil: "encode_record [] = []"
  by (simp add: encode_record_eq str_encode_def)

lemma replace_text_single: "\<exists>r. replace_text [c] = [r]"
  by (simp add: replace_text_def dict_get_def replacement_dict_def replacement_table_def)

lemma replace_text_append: "replace_text (s @ t) = replace_text s @ replace_text t"
  by (simp add: replace_text_def)

lemma str_encode_replace_text:
  "str_encode (replace_text t) = concat (map (\<lambda>c. str_encode (replace_text [c])) t)"
  by (induction t) (simp_all add: replace_text_def str_encode_def)



lemma length_pointer_pair: "length (pointer_pair x) = 2"
  by (simp add: pointer_pair_def)


lemma record_starts_append:
  "record_starts p (xs @ ys)
     = record_starts p xs @ record_starts (p + (\<Sum>t\<leftarrow>xs. int (length (encode_record t)))) ys"
  by (induction xs arbitrary: p) (simp_all add: add.assoc)

section \<open>Properties\<close>

text \<open>
  C10. With no text records at all, \<open>encodeTextsAndPointers\<close> succeeds and returns an empty
  encoded block, a byte count of zero and an empty pointer byte sequence: the seeded
  start offset is the one element of the pointer list and it is popped.
\<close>

theorem no_records_empty_result:
  "encodeTextsAndPointers [] textStartOffset pointersDistance = Inr ([], 0, [])"
  by (simp add: encodeTextsAndPointers_def list_pop_def)

text \<open>
  C1, as the code has it. The pointer table holds one two-byte pointer for every record:
  the list is seeded with the start offset, gains one entry per record, and loses only
  the entry appended after the last record. So \<open>N\<close> records give \<open>N\<close> pointers
  (\<open>2 * N\<close> pointer bytes), not \<open>N - 1\<close>.
\<close>

theorem pointer_count_eq_record_count:
  "\<exists>encodedData totalBytes pointersData.
     encodeTextsAndPointers texts textStartOffset pointersDistance
       = Inr (encodedData, totalBytes, pointersData)
     \<and> length pointersData = 2 * length texts"
  by (simp add: encodeTextsAndPointers_eq length_pointer_pairs length_record_starts)

text \<open>
  C1 as stated fails already for a single record: the table then holds one pointer,
  the bytes \<open>6B 80\<close>, where the claim asks for none.
\<close>

theorem pointer_count_counterexample:
  "encodeTextsAndPointers [[0x41]] TEXTSTARTOFFSET POINTERSDISTANCE = Inr ([0x41], 1, [0x6B, 0x80])
   \<and> int (length [0x6B, 0x80 :: byte]) div 2 \<noteq> int (length [[0x41 :: pychar]]) - 1"
  by (simp add: encodeTextsAndPointers_eq encode_record_eq str_encode_def utf8_char_def
      pointer_pair_reverse TEXTSTARTOFFSET_def POINTERSDISTANCE_def)

text \<open>
  C2, as the code has it. Pointer \<open>i\<close>, read back by undoing the byte swap and adding the
  distance constant, is the start offset plus the encoded lengths of the records before
  record \<open>i\<close>, provided the corrected value \<open>b + start_offset texts i - d\<close> fits into
  sixteen bits. (Outside that range only the low sixteen bits of the corrected value
  are stored.)
\<close>

theorem pointer_refers_to_record_start:
  assumes "i < length texts"
    and "0 \<le> b + start_offset texts i - d"
    and "b + start_offset texts i - d \<le> 0xFFFF"
  shows "\<exists>encodedData totalBytes pointersData.
     encodeTextsAndPointers texts b d = Inr (encodedData, totalBytes, pointersData)
     \<and> decode_pointer (pointersData ! (2 * i)) (pointersData ! (2 * i + 1)) d
         = b + start_offset texts i"
proof -
  let ?c = "b + start_offset texts i - d"
  let ?pd = "concat (map (\<lambda>p. pointer_pair (reverse_bytes (p - d))) (record_starts b texts))"
  have m: "?c mod 65536 = ?c"
    using assms(2,3) by simp
  have "decode_pointer (?pd ! (2 * i)) (?pd ! (2 * i + 1)) d = ?c mod 65536 + d"
    by (simp only: pointer_bytes_nth [OF assms(1)] decode_pointer_low16)
  with m have "decode_pointer (?pd ! (2 * i)) (?pd ! (2 * i + 1)) d = b + start_offset texts i"
    by simp
  with encodeTextsAndPointers_eq [of texts b d] show ?thesis
    by blast
qed

theorem pointer_refers_to_record_start_witness:
  "\<exists>encodedData totalBytes pointersData.
     encodeTextsAndPointers [[0x48, 0x69, 0x21], [0x42, 0x79, 0x65, 0x2E]] 0x1007B 0x8010
       = Inr (encodedData, totalBytes, pointersData)
     \<and> decode_pointer (pointersData ! 2) (pointersData ! 3) 0x8010 = 0x1007B + 3"
  using pointer_refers_to_record_start
     [of 1 "[[0x48, 0x69, 0x21], [0x42, 0x79, 0x65, 0x2E]]" "0x1007B" "0x8010"]
  by (simp add: start_offset_def encode_record_eq str_encode_def utf8_char_def)

text \<open>
  C2 as stated, for every input, fails with the program's own constants once the text
  before a record reaches \<open>0x7F95 = 32661\<close> bytes: the corrected value of the second
  pointer is then \<open>0x10000\<close>, the bytes stored are \<open>00 00\<close>, and reading them back gives
  \<open>0x8010\<close>, not the record's start \<open>0x18010\<close>.
\<close>

theorem pointer_wraps_counterexample:
  "encodeTextsAndPointers [replicate 32661 0x41, [0x42]] TEXTSTARTOFFSET POINTERSDISTANCE
     = Inr (replicate 32661 0x41 @ [0x42], 32662, [0x6B, 0x80, 0x00, 0x00])
   \<and> decode_pointer 0x00 0x00 POINTERSDISTANCE
       \<noteq> TEXTSTARTOFFSET + start_offset [replicate 32661 0x41, [0x42]] 1"
proof -
  have B: "str_encode [0x42] = [0x42]"
    by (simp add: str_encode_def utf8_char_def)
  have p0: "pointer_pair (reverse_bytes 0x806B) = [0x6B, 0x80]"
    by (simp add: pointer_pair_reverse)
  have p1: "pointer_pair (reverse_bytes 0x10000) = [0x00, 0x00]"
    by (simp add: pointer_pair_reverse)
  have d: "decode_pointer 0x00 0x00 0x8010 = 0x8010"
    by (simp add: decode_pointer_def reverse_bytes_arith)
  show ?thesis
    by (simp add: encodeTextsAndPointers_eq encode_record_eq str_encode_replicate_A B p0 p1 d
        start_offset_def TEXTSTARTOFFSET_def POINTERSDISTANCE_def)
qed

text \<open>
  C5. Whatever the corrected pointer value is, inside or outside \<open>0..0xFFFF\<close>, negative
  included, its emission raises no error and the two bytes emitted are the value reduced
  modulo \<open>2^16\<close>, low byte first. The same holds for every pointer of the table that
  \<open>encodeTextsAndPointers\<close> returns, also when the start offset plus the bytes before the
  record is less than the distance constant.
\<close>

theorem pointer_bytes_truncate_to_16_bits:
  "(\<exists>first second. emit_pointer corrected = Inr [first, second]
       \<and> uint first + 256 * uint second = corrected mod 65536)
   \<and> (\<exists>encodedData totalBytes pointersData.
         encodeTextsAndPointers texts b d = Inr (encodedData, totalBytes, pointersData)
         \<and> (\<forall>i<length texts.
               uint (pointersData ! (2 * i)) + 256 * uint (pointersData ! (2 * i + 1))
                 = (b + start_offset texts i - d) mod 65536))"
proof
  show "\<exists>first second. emit_pointer corrected = Inr [first, second]
       \<and> uint first + 256 * uint second = corrected mod 65536"
    by (simp add: emit_pointer_eq uint_byte_of_mod uint_byte_of_div low16_split)
next
  let ?pd = "concat (map (\<lambda>p. pointer_pair (reverse_bytes (p - d))) (record_starts b texts))"
  have "uint (?pd ! (2 * i)) + 256 * uint (?pd ! (2 * i + 1))
          = (b + start_offset texts i - d) mod 65536" if "i < length texts" for i
    by (simp only: pointer_bytes_nth [OF that] uint_byte_of_mod uint_byte_of_div low16_split)
  with encodeTextsAndPointers_eq [of texts b d]
  show "\<exists>encodedData totalBytes pointersData.
         encodeTextsAndPointers texts b d = Inr (encodedData, totalBytes, pointersData)
         \<and> (\<forall>i<length texts.
               uint (pointersData ! (2 * i)) + 256 * uint (pointersData ! (2 * i + 1))
                 = (b + start_offset texts i - d) mod 65536)"
    by blast
qed

theorem pointer_bytes_truncate_to_16_bits_witness:
  "(\<exists>first second. emit_pointer (- 1) = Inr [first, second]
       \<and> uint first + 256 * uint second = 65535)
   \<and> (\<exists>encodedData totalBytes pointersData.
         encodeTextsAndPointers [[0x41]] 0 1 = Inr (encodedData, totalBytes, pointersData)
         \<and> uint (pointersData ! 0) + 256 * uint (pointersData ! 1) = 65535)"
  using pointer_bytes_truncate_to_16_bits [of "- 1" "[[0x41]]" 0 1]
  by (simp add: start_offset_def)




text \<open>
  C3. \<open>encodeTextsAndPointers\<close> always returns, and the program then ends with
  \<open>sys.exit(1)\<close> after the capacity error exactly when the encoded block is longer than
  the declared capacity. In that case it reports the excess \<open>len(encodedData) - capacity\<close>
  and leaves the ROM file as it was. Otherwise, with a ROM file that can be opened, it
  runs to the end and reports \<open>capacity - len(encodedData)\<close> free bytes, which is zero
  when the two are equal.
\<close>

theorem capacity_check:
  "\<exists>encodedData totalBytes pointersList.
     encodeTextsAndPointers (characterReplacer texts) TEXTSTARTOFFSET POINTERSDISTANCE
       = Inr (encodedData, totalBytes, pointersList)
     \<and> (fst (main lengthText texts romFile) = SysExit 1
          \<longleftrightarrow> lengthText < int (length encodedData))
     \<and> (lengthText < int (length encodedData) \<longrightarrow>
          main lengthText texts romFile
            = (SysExit 1,
               [ErrorExceedsLimit, RemoveBytes (int (length encodedData) - lengthText)],
               romFile))
     \<and> (int (length encodedData) \<le> lengthText \<longrightarrow> romFile \<noteq> None \<longrightarrow>
          fst (main lengthText texts romFile) = Finished
          \<and> fst (snd (main lengthText texts romFile))
              = [TextWritten TEXTSTARTOFFSET,
                 PointersWritten POINTERSSTARTOFFSET (int (length pointersList) div 2),
                 FreeSpace (lengthText - int (length encodedData)),
                 DataWritten])
     \<and> (int (length encodedData) = lengthText \<longrightarrow> romFile \<noteq> None \<longrightarrow>
          fst (main lengthText texts romFile) = Finished
          \<and> FreeSpace 0 \<in> set (fst (snd (main lengthText texts romFile))))"
proof -
  obtain encodedData totalBytes pointersList where
    e: "encodeTextsAndPointers (characterReplacer texts) TEXTSTARTOFFSET POINTERSDISTANCE
          = Inr (encodedData, totalBytes, pointersList)"
    using encodeTextsAndPointers_eq by blast
  have a: "fst (main lengthText texts romFile) = SysExit 1
             \<longleftrightarrow> lengthText < int (length encodedData)"
  proof (cases "lengthText < int (length encodedData)")
    case True
    with main_exceeds [OF e] show ?thesis by simp
  next
    case False
    then have le: "int (length encodedData) \<le> lengthText" by simp
    show ?thesis
    proof (cases romFile)
      case None
      with main_no_rom [OF e le] False show ?thesis by simp
    next
      case (Some content)
      with main_fits [OF e le] False show ?thesis by simp
    qed
  qed
  have b: "main lengthText texts romFile
            = (SysExit 1,
               [ErrorExceedsLimit, RemoveBytes (int (length encodedData) - lengthText)],
               romFile)" if "lengthText < int (length encodedData)"
    using main_exceeds [OF e that] .
  have c: "fst (main lengthText texts romFile) = Finished
          \<and> fst (snd (main lengthText texts romFile))
              = [TextWritten TEXTSTARTOFFSET,
                 PointersWritten POINTERSSTARTOFFSET (int (length pointersList) div 2),
                 FreeSpace (lengthText - int (length encodedData)),
                 DataWritten]"
    if "int (length encodedData) \<le> lengthText" "romFile \<noteq> None"
  proof -
    from that(2) obtain content where "romFile = Some content" by blast
    with main_fits [OF e that(1), of content] show ?thesis by simp
  qed
  have d: "fst (main lengthText texts romFile) = Finished
          \<and> FreeSpace 0 \<in> set (fst (snd (main lengthText texts romFile)))"
    if "int (length encodedData) = lengthText" "romFile \<noteq> None"
    using c [OF _ that(2)] that(1) by simp
  from e a b c d show ?thesis by blast
qed

theorem capacity_check_witness:
  "main 6 [[0x48, 0x69, 0x21], [0x42, 0x79, 0x65, 0x2E]] (Some [])
     = (SysExit 1, [ErrorExceedsLimit, RemoveBytes 1], Some [])
   \<and> fst (main 7 [[0x48, 0x69, 0x21], [0x42, 0x79, 0x65, 0x2E]] (Some [])) = Finished
   \<and> FreeSpace 0 \<in> set (fst (snd (main 7 [[0x48, 0x69, 0x21], [0x42, 0x79, 0x65, 0x2E]] (Some []))))"
  using capacity_check [of "[[0x48, 0x69, 0x21], [0x42, 0x79, 0x65, 0x2E]]" 6 "Some []"]
    capacity_check [of "[[0x48, 0x69, 0x21], [0x42, 0x79, 0x65, 0x2E]]" 7 "Some []"]
  by (simp add: replace_hi_bye encode_hi_bye)

text \<open>
  C6, as the code has it. An empty record is not rejected: \<open>encodeTextsAndPointers\<close> has
  no validation and raises nothing. Both slices of the empty string are empty, so the
  record adds no byte to the encoded block and leaves the byte count as it is, and it
  still gets a pointer of its own. The result for a list with an empty record is the
  result for the list without it with one two-byte pointer inserted at the record's
  position: the pointer for the address at which the empty record starts, which is
  where the record after it starts too.
\<close>

theorem empty_record_is_encoded:
  "\<exists>encodedData totalBytes pointersData pointersData'.
     encodeTextsAndPointers (before @ [[]] @ after) b d
       = Inr (encodedData, totalBytes, pointersData)
     \<and> encodeTextsAndPointers (before @ after) b d
         = Inr (encodedData, totalBytes, pointersData')
     \<and> length pointersData = length pointersData' + 2
     \<and> pointersData
         = take (2 * length before) pointersData'
           @ pointer_pair (reverse_bytes (b + start_offset before (length before) - d))
           @ drop (2 * length before) pointersData'"
  by (simp add: encodeTextsAndPointers_eq encode_record_Nil length_pointer_pairs
      length_record_starts record_starts_append start_offset_def length_pointer_pair)

text \<open>
  C6 as stated fails on the single empty record: the call returns the empty block, zero
  bytes and the one pointer \<open>6B 80\<close>, and no error.
\<close>

theorem empty_record_counterexample:
  "encodeTextsAndPointers [[]] TEXTSTARTOFFSET POINTERSDISTANCE = Inr ([], 0, [0x6B, 0x80])"
  by (simp add: encodeTextsAndPointers_eq encode_record_Nil pointer_pair_reverse
      TEXTSTARTOFFSET_def POINTERSDISTANCE_def)

text \<open>
  C7, as the code has it. For the records \<open>Hi!\<close> and \<open>Bye.\<close> the encoded block is the
  UTF-8 bytes of \<open>Hi!Bye.\<close>, which are 7 bytes, the pointer table holds the two pointers
  for the addresses \<open>b\<close> and \<open>b + 3\<close>, and with a declared capacity of 100 the program
  reports 2 pointers and 93 free bytes.
\<close>

theorem hi_bye_scenario:
  "encodeTextsAndPointers [[0x48, 0x69, 0x21], [0x42, 0x79, 0x65, 0x2E]] b d
     = Inr ([0x48, 0x69, 0x21, 0x42, 0x79, 0x65, 0x2E], 7,
            concat (map (\<lambda>p. pointer_pair (reverse_bytes (p - d))) [b, b + 3]))
   \<and> str_encode [0x48, 0x69, 0x21, 0x42, 0x79, 0x65, 0x2E]
       = [0x48, 0x69, 0x21, 0x42, 0x79, 0x65, 0x2E]
   \<and> fst (snd (main 100 [[0x48, 0x69, 0x21], [0x42, 0x79, 0x65, 0x2E]] (Some content)))
       = [TextWritten TEXTSTARTOFFSET, PointersWritten POINTERSSTARTOFFSET 2,
          FreeSpace 93, DataWritten]"
proof -
  have "fst (snd (main 100 [[0x48, 0x69, 0x21], [0x42, 0x79, 0x65, 0x2E]] (Some content)))
       = [TextWritten TEXTSTARTOFFSET, PointersWritten POINTERSSTARTOFFSET 2,
          FreeSpace 93, DataWritten]"
    using main_fits [of "[[0x48, 0x69, 0x21], [0x42, 0x79, 0x65, 0x2E]]" _ _ _ 100 content]
    by (simp add: replace_hi_bye encode_hi_bye pointer_pair_def)
  then show ?thesis
    by (simp add: encode_hi_bye str_encode_def utf8_char_def)
qed

text \<open>
  C7 as stated fails on its own input: the block has 7 bytes and not 8, the table has
  2 pointers and not 1, and the free bytes reported are 93 and not 92.
\<close>

theorem hi_bye_counterexample:
  "encodeTextsAndPointers [[0x48, 0x69, 0x21], [0x42, 0x79, 0x65, 0x2E]]
       TEXTSTARTOFFSET POINTERSDISTANCE
     = Inr ([0x48, 0x69, 0x21, 0x42, 0x79, 0x65, 0x2E], 7, [0x6B, 0x80, 0x6E, 0x80])
   \<and> length [0x48, 0x69, 0x21, 0x42, 0x79, 0x65, 0x2E :: byte] \<noteq> 8
   \<and> length [0x6B, 0x80, 0x6E, 0x80 :: byte] div 2 \<noteq> 1
   \<and> fst (snd (main 100 [[0x48, 0x69, 0x21], [0x42, 0x79, 0x65, 0x2E]] (Some [])))
       = [TextWritten 0x1007B, PointersWritten 0x144F4 2, FreeSpace 93, DataWritten]
   \<and> FreeSpace 92
       \<notin> set (fst (snd (main 100 [[0x48, 0x69, 0x21], [0x42, 0x79, 0x65, 0x2E]] (Some []))))"
proof -
  have m: "fst (snd (main 100 [[0x48, 0x69, 0x21], [0x42, 0x79, 0x65, 0x2E]] (Some [])))
       = [TextWritten 0x1007B, PointersWritten 0x144F4 2, FreeSpace 93, DataWritten]"
    using main_fits [of "[[0x48, 0x69, 0x21], [0x42, 0x79, 0x65, 0x2E]]" _ _ _ 100 "[]"]
    by (simp add: replace_hi_bye encode_hi_bye pointer_pair_def TEXTSTARTOFFSET_def
        POINTERSSTARTOFFSET_def)
  show ?thesis
    by (simp add: m encode_hi_bye pointer_pair_reverse TEXTSTARTOFFSET_def POINTERSDISTANCE_def)
qed

text \<open>
  C8. A character of the ten-entry table leaves the encoder as its replacement byte, any
  other character as its UTF-8 bytes, and the encoded block of the program is these
  bytes for every character of every line, in order. The replacement acts on characters
  before they are encoded: e acute becomes the byte \<open>4B\<close>, although its own UTF-8
  encoding is \<open>C3 A9\<close>.
\<close>

theorem substitution_before_encoding:
  "str_encode (replace_text [c]) =
     (if c = 0x3F then [0x23]
      else if c = 0xBF then [0x24]
      else if c = 0xE1 then [0x25]
      else if c = 0xE9 then [0x4B]
      else if c = 0xED then [0x57]
      else if c = 0xF3 then [0x58]
      else if c = 0xFA then [0x77]
      else if c = 0xF1 then [0x29]
      else if c = 0xC1 then [0x27]
      else if c = 0xC9 then [0x28]
      else utf8_char c)
   \<and> length replacement_table = 10
   \<and> (\<exists>totalBytes pointersData.
        encodeTextsAndPointers (characterReplacer texts) b d
          = Inr (concat (map (\<lambda>t. concat (map (\<lambda>c. str_encode (replace_text [c])) t)) texts),
                 totalBytes, pointersData))
   \<and> str_encode [0xE9] = [0xC3, 0xA9]
   \<and> str_encode (replace_text [0xE9]) = [0x4B]"
proof -
  have 1: "str_encode (replace_text [c]) =
     (if c = 0x3F then [0x23]
      else if c = 0xBF then [0x24]
      else if c = 0xE1 then [0x25]
      else if c = 0xE9 then [0x4B]
      else if c = 0xED then [0x57]
      else if c = 0xF3 then [0x58]
      else if c = 0xFA then [0x77]
      else if c = 0xF1 then [0x29]
      else if c = 0xC1 then [0x27]
      else if c = 0xC9 then [0x28]
      else utf8_char c)"
    by (simp add: replace_text_def dict_get_def replacement_dict_def replacement_table_def
        str_encode_def utf8_char_def)
  have 2: "length replacement_table = 10"
    by (simp add: replacement_table_def)
  have 3: "concat (map encode_record (characterReplacer texts))
             = concat (map (\<lambda>t. concat (map (\<lambda>c. str_encode (replace_text [c])) t)) texts)"
    by (simp add: characterReplacer_eq encode_record_eq comp_def
        str_encode_replace_text [symmetric])
  have 4: "str_encode [0xE9] = [0xC3, 0xA9]"
    by (simp add: str_encode_def utf8_char_def)
  have 5: "str_encode (replace_text [0xE9]) = [0x4B]"
    by (simp add: replace_text_def dict_get_def replacement_dict_def replacement_table_def
        str_encode_def utf8_char_def)
  from 1 2 4 5 show ?thesis
    by (simp add: encodeTextsAndPointers_eq 3)
qed

text \<open>
  C9. The replacement runs on the whole line before the line is split, so the breaker
  of a replaced line is the replacement of the final character and the content is the
  replacement of what precedes it; a line ending in \<open>?\<close> ends in the byte \<open>23\<close> (\<open>#\<close>) in
  the encoded block.
\<close>

theorem terminator_is_substituted:
  "slice_init (replace_text (content @ [c])) = replace_text content
   \<and> slice_last (replace_text (content @ [c])) = replace_text [c]
   \<and> (\<exists>totalBytes pointersData.
        encodeTextsAndPointers (characterReplacer [content @ [0x3F]]) b d
          = Inr (str_encode (replace_text content) @ [0x23], totalBytes, pointersData))"
proof -
  obtain r where r: "replace_text [c] = [r]"
    using replace_text_single by blast
  have q: "replace_text [0x3F] = [0x23]"
    by (simp add: replace_text_def dict_get_def replacement_dict_def replacement_table_def)
  have h: "str_encode [0x23] = [0x23]"
    by (simp add: str_encode_def utf8_char_def)
  have "slice_init (replace_text (content @ [c])) = replace_text content"
    by (simp add: replace_text_append r slice_init_def)
  moreover have "slice_last (replace_text (content @ [c])) = replace_text [c]"
    by (simp add: replace_text_append r slice_last_def)
  moreover have "\<exists>totalBytes pointersData.
        encodeTextsAndPointers (characterReplacer [content @ [0x3F]]) b d
          = Inr (str_encode (replace_text content) @ [0x23], totalBytes, pointersData)"
    by (simp add: encodeTextsAndPointers_eq characterReplacer_eq encode_record_eq
        replace_text_append q str_encode_append h)
  ultimately show ?thesis by blast
qed


end
